theory Spec2Isabelle
  imports Complex_Main
begin

section \<open>Text primitives\<close>

text \<open>
  A Python \<open>str\<close> is modelled as a \<open>string\<close>, one \<open>char\<close> per code point, for texts
  over the code points U+0000 to U+00FF. On that range \<open>str.lower\<close> maps character by
  character, and \<open>str.isspace\<close>, the regular-expression classes \<open>\s\<close> and \<open>\w\<close> are the
  tables below.
\<close>

definition code_point :: "char \<Rightarrow> nat" where
  "code_point c = of_char c"

definition is_space :: "char \<Rightarrow> bool" where
  "is_space c =
     (let n = code_point c
      in (9 \<le> n \<and> n \<le> 13) \<or> (28 \<le> n \<and> n \<le> 32) \<or> n = 133 \<or> n = 160)"

definition non_space :: "char \<Rightarrow> bool" where
  "non_space c = (if is_space c then False else True)"

definition is_word :: "char \<Rightarrow> bool" where
  "is_word c =
     (let n = code_point c
      in (48 \<le> n \<and> n \<le> 57) \<or> (65 \<le> n \<and> n \<le> 90) \<or> n = 95 \<or> (97 \<le> n \<and> n \<le> 122)
         \<or> n = 170 \<or> n = 178 \<or> n = 179 \<or> n = 181 \<or> n = 185 \<or> n = 186
         \<or> (188 \<le> n \<and> n \<le> 190) \<or> (192 \<le> n \<and> n \<le> 214)
         \<or> (216 \<le> n \<and> n \<le> 246) \<or> (248 \<le> n \<and> n \<le> 255))"

definition lower_char :: "char \<Rightarrow> char" where
  "lower_char c =
     (let n = code_point c
      in if (65 \<le> n \<and> n \<le> 90) \<or> (192 \<le> n \<and> n \<le> 222 \<and> n \<noteq> 215)
         then char_of (n + 32) else c)"

text \<open>\<open>text.lower()\<close>\<close>

definition lower :: "string \<Rightarrow> string" where
  "lower s = map lower_char s"

text \<open>\<open>text.strip()\<close>: leading and trailing whitespace removed.\<close>

definition strip :: "string \<Rightarrow> string" where
  "strip s = rev (dropWhile is_space (rev (dropWhile is_space s)))"

text \<open>\<open>s.startswith(k)\<close> and the substring test \<open>k in s\<close>.\<close>

fun starts_with :: "string \<Rightarrow> string \<Rightarrow> bool" where
  "starts_with [] s = True"
| "starts_with (k # ks) [] = False"
| "starts_with (k # ks) (c # cs) = (k = c \<and> starts_with ks cs)"

fun contains :: "string \<Rightarrow> string \<Rightarrow> bool" where
  "contains k [] = (k = [])"
| "contains k (c # cs) = (starts_with k (c # cs) \<or> contains k cs)"

section \<open>Pattern library\<close>

text \<open>
  \<open>INTENT_KEYWORDS\<close>: a dict literal, kept as an association list in its insertion
  order, which is the order \<open>.items()\<close> iterates in.
\<close>

definition INTENT_KEYWORDS :: "(string \<times> string list) list" where
  "INTENT_KEYWORDS =
    [(''summarization'',
        [''summarize'', ''summary'', ''tldr'', ''brief'', ''overview'',
         ''recap'', ''gist'', ''key points'', ''main points'', ''condense'']),
     (''sentiment_analysis'',
        [''sentiment'', ''feeling'', ''emotion'', ''tone'', ''mood'',
         ''opinion'', ''attitude'', ''positive'', ''negative'']),
     (''code_explanation'',
        [''explain code'', ''what does this code'', ''code explanation'',
         ''how does this work'', ''analyze code'', ''review code'',
         ''debug'', ''find bugs'', ''what is this function'']),
     (''action_items'',
        [''action item'', ''action items'', ''todo'', ''to-do'', ''task'',
         ''tasks'', ''next steps'', ''follow up'', ''deliverable'']),
     (''youtube_transcript'',
        [''youtube.com'', ''youtu.be'', ''youtube'', ''video transcript''])]"

text \<open>\<open>INTENT_KEYWORDS.get(intent, [])\<close>\<close>

definition keywords_of :: "string \<Rightarrow> string list" where
  "keywords_of intent =
     (case map_of INTENT_KEYWORDS intent of None \<Rightarrow> [] | Some ks \<Rightarrow> ks)"

text \<open>
  The code patterns use no alternation and no grouping: each is a sequence of items, an
  item being a character class under one of the quantifiers "exactly one", \<open>+\<close> and \<open>*\<close>.
  \<open>pattern.search(text)\<close> is only tested for truth, so the lazy \<open>*?\<close> of the last
  pattern is the same as \<open>*\<close> here.
\<close>

datatype quant = One | Plus | Star

type_synonym item = "(char \<Rightarrow> bool) \<times> quant"

definition lit :: "string \<Rightarrow> item list" where
  "lit s = map (\<lambda>c. ((\<lambda>x. x = c), One)) s"

definition word_or_dot :: "char \<Rightarrow> bool" where
  "word_or_dot c = (is_word c \<or> c = CHR ''.'')"

definition space_or_non_space :: "char \<Rightarrow> bool" where
  "space_or_non_space c = (is_space c \<or> non_space c)"

definition CODE_PATTERNS :: "item list list" where
  "CODE_PATTERNS =
    [lit ''def'' @ [(is_space, Plus), (is_word, Plus), (is_space, Star)] @ lit ''('',
     lit ''function'' @ [(is_space, Plus), (is_word, Plus), (is_space, Star)] @ lit ''('',
     lit ''class'' @ [(is_space, Plus), (is_word, Plus)],
     lit ''import'' @ [(is_space, Plus), (word_or_dot, Plus)],
     lit ''from'' @ [(is_space, Plus), (word_or_dot, Plus), (is_space, Plus)] @ lit ''import'',
     lit ''const'' @ [(is_space, Plus), (is_word, Plus), (is_space, Star)] @ lit ''='',
     lit ''let'' @ [(is_space, Plus), (is_word, Plus), (is_space, Star)] @ lit ''='',
     lit ''var'' @ [(is_space, Plus), (is_word, Plus), (is_space, Star)] @ lit ''='',
     lit ''public'' @ [(is_space, Plus), (is_word, Plus)],
     lit ''private'' @ [(is_space, Plus), (is_word, Plus)],
     lit ''```'' @ [(space_or_non_space, Star)] @ lit ''```'']"

text \<open>Does the pattern match a prefix of the text?\<close>

fun match_here :: "item list \<Rightarrow> string \<Rightarrow> bool" where
  "match_here [] s = True"
| "match_here ((p, One) # ps) [] = False"
| "match_here ((p, One) # ps) (c # cs) = (p c \<and> match_here ps cs)"
| "match_here ((p, Plus) # ps) [] = False"
| "match_here ((p, Plus) # ps) (c # cs) = (p c \<and> match_here ((p, Star) # ps) cs)"
| "match_here ((p, Star) # ps) [] = match_here ps []"
| "match_here ((p, Star) # ps) (c # cs) =
     (match_here ps (c # cs) \<or> (p c \<and> match_here ((p, Star) # ps) cs))"

text \<open>\<open>pattern.search(text)\<close>: a match starting at some position of the text.\<close>

fun search :: "item list \<Rightarrow> string \<Rightarrow> bool" where
  "search ps [] = match_here ps []"
| "search ps (c # cs) = (match_here ps (c # cs) \<or> search ps cs)"

section \<open>Intent detector\<close>

definition contains_keywords :: "string \<Rightarrow> string \<Rightarrow> bool" where
  "contains_keywords text intent = list_ex (\<lambda>keyword. contains keyword text) (keywords_of intent)"

definition contains_code :: "string \<Rightarrow> bool" where
  "contains_code text = list_ex (\<lambda>pattern. search pattern text) CODE_PATTERNS"

definition explanation_words :: "string list" where
  "explanation_words =
    [''explain'', ''what does'', ''how does'', ''what is'',
     ''analyze'', ''review'', ''understand'', ''clarify'']"

definition contains_explanation_request :: "string \<Rightarrow> bool" where
  "contains_explanation_request text = list_ex (\<lambda>word. contains word text) explanation_words"

definition action_verbs :: "string list" where
  "action_verbs =
    [''summarize'', ''explain'', ''analyze'', ''extract'',
     ''find'', ''list'', ''show'', ''tell'', ''give'',
     ''identify'', ''detect'', ''calculate'', ''convert'']"

definition has_clear_instruction :: "string \<Rightarrow> bool" where
  "has_clear_instruction text =
     (if text = [] \<or> length text < 5 then False
      else list_ex (\<lambda>verb. contains verb text) action_verbs)"

text \<open>
  The loop of \<open>detect\<close> over \<open>INTENT_KEYWORDS.items()\<close>: it skips the entry
  \<open>youtube_transcript\<close> and returns the first other intent whose keywords the text
  contains, \<open>None\<close> when the loop ends without returning.
\<close>

fun scan_intents :: "(string \<times> string list) list \<Rightarrow> string \<Rightarrow> string option" where
  "scan_intents [] text_lower = None"
| "scan_intents ((intent, keywords) # rest) text_lower =
     (if intent = ''youtube_transcript'' then scan_intents rest text_lower
      else if contains_keywords text_lower intent then Some intent
      else scan_intents rest text_lower)"

definition detect :: "string \<Rightarrow> bool \<Rightarrow> string" where
  "detect text has_file =
     (let text_lower = strip (lower text)
      in if contains_keywords text_lower ''youtube_transcript'' then ''youtube_transcript''
         else if contains_code text \<and> contains_explanation_request text_lower
           then ''code_explanation''
         else (case scan_intents INTENT_KEYWORDS text_lower of
                 Some intent \<Rightarrow> intent
               | None \<Rightarrow>
                   if has_file \<and> \<not> has_clear_instruction text_lower
                   then ''needs_clarification''
                   else ''conversational''))"

text \<open>
  \<open>get_confidence\<close>: the three scores are the decimal literals of the source, read as
  real numbers. The keyword count is taken on \<open>text.lower()\<close>, not stripped.
\<close>

definition keyword_matches :: "string \<Rightarrow> string \<Rightarrow> nat" where
  "keyword_matches intent text_lower =
     sum_list (map (\<lambda>keyword. 1) (filter (\<lambda>keyword. contains keyword text_lower) (keywords_of intent)))"

definition get_confidence :: "string \<Rightarrow> bool \<Rightarrow> real" where
  "get_confidence text has_file =
     (let intent = detect text has_file
      in if intent = ''needs_clarification'' then 0.0
         else (let text_lower = lower text;
                   n = keyword_matches intent text_lower
               in if n \<ge> 2 then 0.95 else if n = 1 then 0.75 else 0.5))"

section \<open>Task executor\<close>

text \<open>
  A task result is a Python dict with string keys: the values under \<open>task\<close> and
  \<open>result\<close> are strings, the value under \<open>error\<close> (present in the error result only)
  is a boolean. The dict is kept as an association list in the order of the literal.
\<close>

datatype pyval = Str string | Bool bool

type_synonym result = "(string \<times> pyval) list"

text \<open>
  An exception is an instance of \<open>Exception\<close>, the class the \<open>except\<close> clause of
  \<open>execute\<close> names; \<open>str\<close> is its message.
\<close>

datatype exn = Exception (str: string)

text \<open>
  The Anthropic client is a parameter. \<open>client model max_tokens prompt\<close> is the outcome
  of \<open>self.client.messages.create(model=model, max_tokens=max_tokens,
  messages=[{"role": "user", "content": prompt}])\<close>: \<open>Inl e\<close> when the call raises
  \<open>e\<close>, \<open>Inr content\<close> when it returns a response, \<open>content\<close> being the texts of the
  response's content blocks.
\<close>

type_synonym client = "string \<Rightarrow> nat \<Rightarrow> string \<Rightarrow> exn + string list"

definition model :: string where
  "model = ''claude-sonnet-4-20250514''"

text \<open>\<open>response.content[0].text\<close>: indexing an empty list raises IndexError.\<close>

definition first_text :: "string list \<Rightarrow> exn + string" where
  "first_text content =
     (case content of
        [] \<Rightarrow> Inl (Exception ''list index out of range'')
      | block # _ \<Rightarrow> Inr block)"

text \<open>The call to the client followed by the read of the first block's text.\<close>

definition create_text :: "client \<Rightarrow> nat \<Rightarrow> string \<Rightarrow> exn + string" where
  "create_text client max_tokens prompt =
     (case client model max_tokens prompt of
        Inl e \<Rightarrow> Inl e
      | Inr content \<Rightarrow> first_text content)"

text \<open>
  The prompt templates, line by line as in the f-strings of the source. The bullet of
  the summary template is U+2022, outside the range of \<open>char\<close>; it is written as its
  three UTF-8 bytes.
\<close>

definition bullet :: string where
  "bullet = [CHR 0xE2, CHR 0x80, CHR 0xA2]"

definition summary_prompt :: "string \<Rightarrow> string" where
  \<open>summary_prompt content =
       ''Provide a comprehensive summary in this EXACT format:\<newline>''
     @ ''\<newline>''
     @ ''**One-line summary:** [Write a single, concise sentence capturing the main point]\<newline>''
     @ ''\<newline>''
     @ ''**Key Points:**\<newline>''
     @ bullet
     @ '' [First key point]\<newline>''
     @ bullet
     @ '' [Second key point]\<newline>''
     @ bullet
     @ '' [Third key point]\<newline>''
     @ ''\<newline>''
     @ ''**Detailed Summary:**\<newline>''
     @ ''[Write exactly 5 sentences providing a thorough overview of the content. Cover the main themes, important details, and conclusions.]\<newline>''
     @ ''\<newline>''
     @ ''Content to summarize:\<newline>''
     @ content
     @ ''\<newline>''\<close>

definition sentiment_prompt :: "string \<Rightarrow> string" where
  \<open>sentiment_prompt content =
       ''Analyze the sentiment of the following content and return in this EXACT format:\<newline>''
     @ ''\<newline>''
     @ ''**Sentiment:** [Choose: Positive, Negative, Neutral, or Mixed]\<newline>''
     @ ''**Confidence:** [Provide percentage, e.g., 85%]\<newline>''
     @ ''**Justification:** [Write ONE clear sentence explaining why you chose this sentiment]\<newline>''
     @ ''\<newline>''
     @ ''Content to analyze:\<newline>''
     @ content
     @ ''\<newline>''\<close>

definition code_prompt :: "string \<Rightarrow> string" where
  \<open>code_prompt content =
       ''Analyze this code and provide a comprehensive explanation in this format:\<newline>''
     @ ''\<newline>''
     @ ''**Purpose:**\<newline>''
     @ ''[Explain what this code is designed to do]\<newline>''
     @ ''\<newline>''
     @ ''**Logic Explanation:**\<newline>''
     @ ''[Provide a step-by-step breakdown of how the code works]\<newline>''
     @ ''\<newline>''
     @ ''**Bugs/Issues:**\<newline>''
     @ ''[Identify any bugs, potential issues, or code smells. If none found, state "No obvious bugs detected."]\<newline>''
     @ ''\<newline>''
     @ ''**Complexity Analysis:**\<newline>''
     @ ''[Provide time and space complexity analysis if applicable. Use Big O notation.]\<newline>''
     @ ''\<newline>''
     @ ''Code to analyze:\<newline>''
     @ content
     @ ''\<newline>''\<close>

definition actions_prompt :: "string \<Rightarrow> string" where
  \<open>actions_prompt content =
       ''Extract all action items, tasks, and to-dos from the following content.\<newline>''
     @ ''\<newline>''
     @ ''Format your response as:\<newline>''
     @ ''\<newline>''
     @ ''**Action Items:**\<newline>''
     @ ''1. [Action item with owner if mentioned and deadline if specified]\<newline>''
     @ ''2. [Action item with owner if mentioned and deadline if specified]\<newline>''
     @ ''...\<newline>''
     @ ''\<newline>''
     @ ''If no action items are found, respond with: "No action items found in the content."\<newline>''
     @ ''\<newline>''
     @ ''Content to analyze:\<newline>''
     @ content
     @ ''\<newline>''\<close>

text \<open>The fixed text of the clarification template that precedes the query.\<close>

definition clarification_head :: string where
  \<open>clarification_head =
       ''The user has provided content but hasn't clearly specified what they want to do with it.\<newline>''
     @ ''\<newline>''
     @ ''Ask them a short, clear clarifying question. Examples:\<newline>''
     @ ''- "What would you like me to do with this content? I can summarize it, analyze sentiment, explain code, extract action items, or answer questions about it."\<newline>''
     @ ''- "How can I help you with this file?"\<newline>''
     @ ''- "What specific information are you looking for from this content?"\<newline>''
     @ ''\<newline>''
     @ ''Keep the question friendly and concise. Offer specific options based on what seems most relevant.\<newline>''
     @ ''\<newline>''\<close>

definition clarification_prompt :: "string \<Rightarrow> string \<Rightarrow> string" where
  \<open>clarification_prompt content query =
       ''The user has provided content but hasn't clearly specified what they want to do with it.\<newline>''
     @ ''\<newline>''
     @ ''Ask them a short, clear clarifying question. Examples:\<newline>''
     @ ''- "What would you like me to do with this content? I can summarize it, analyze sentiment, explain code, extract action items, or answer questions about it."\<newline>''
     @ ''- "How can I help you with this file?"\<newline>''
     @ ''- "What specific information are you looking for from this content?"\<newline>''
     @ ''\<newline>''
     @ ''Keep the question friendly and concise. Offer specific options based on what seems most relevant.\<newline>''
     @ ''\<newline>''
     @ ''User's query: ''
     @ query
     @ ''\<newline>''
     @ ''Content provided: ''
     @ take 200 content
     @ ''...\<newline>''\<close>

definition conversational_prompt :: "string \<Rightarrow> string \<Rightarrow> string" where
  \<open>conversational_prompt content query =
       ''Provide a helpful, friendly response to the user's question or comment.\<newline>''
     @ ''\<newline>''
     @ ''Be concise but informative. If the user is asking about specific content, reference it directly.\<newline>''
     @ ''\<newline>''
     @ ''User's query: ''
     @ query
     @ ''\<newline>''
     @ (if content \<noteq> query then ''Context: '' @ content else [])
     @ ''\<newline>''\<close>

definition youtube_prompt :: "string \<Rightarrow> string" where
  \<open>youtube_prompt query =
       ''The user provided a YouTube URL but the transcript could not be fetched automatically.\<newline>''
     @ ''\<newline>''
     @ ''Explain this limitation politely and suggest:\<newline>''
     @ ''1. They can try pasting the transcript manually if they have access to it\<newline>''
     @ ''2. They can describe what they'd like to know about the video\<newline>''
     @ ''3. In a production system, this would use the YouTube Transcript API\<newline>''
     @ ''\<newline>''
     @ ''User's query: ''
     @ query
     @ ''\<newline>''\<close>

type_synonym handler = "client \<Rightarrow> string \<Rightarrow> string \<Rightarrow> exn + result"

definition handle_summary :: handler where
  "handle_summary client content query =
     (case create_text client 1500 (summary_prompt content) of
        Inl e \<Rightarrow> Inl e
      | Inr text \<Rightarrow> Inr [(''task'', Str ''summarization''), (''result'', Str text)])"

definition handle_sentiment :: handler where
  "handle_sentiment client content query =
     (case create_text client 500 (sentiment_prompt content) of
        Inl e \<Rightarrow> Inl e
      | Inr text \<Rightarrow> Inr [(''task'', Str ''sentiment_analysis''), (''result'', Str text)])"

definition handle_code :: handler where
  "handle_code client content query =
     (case create_text client 2000 (code_prompt content) of
        Inl e \<Rightarrow> Inl e
      | Inr text \<Rightarrow> Inr [(''task'', Str ''code_explanation''), (''result'', Str text)])"

definition handle_actions :: handler where
  "handle_actions client content query =
     (case create_text client 1000 (actions_prompt content) of
        Inl e \<Rightarrow> Inl e
      | Inr text \<Rightarrow> Inr [(''task'', Str ''action_items''), (''result'', Str text)])"

definition handle_clarification :: handler where
  "handle_clarification client content query =
     (case create_text client 300 (clarification_prompt content query) of
        Inl e \<Rightarrow> Inl e
      | Inr text \<Rightarrow> Inr [(''task'', Str ''clarification''), (''result'', Str text)])"

definition handle_conversational :: handler where
  "handle_conversational client content query =
     (case create_text client 1000 (conversational_prompt content query) of
        Inl e \<Rightarrow> Inl e
      | Inr text \<Rightarrow> Inr [(''task'', Str ''conversational''), (''result'', Str text)])"

definition handle_youtube :: handler where
  "handle_youtube client content query =
     (if contains ''[YouTube Transcript]:'' content then
        (if list_ex (\<lambda>word. contains word (lower query)) [''summarize'', ''summary'', ''tldr'']
           then handle_summary client content query
         else if list_ex (\<lambda>word. contains word (lower query)) [''sentiment'', ''tone'']
           then handle_sentiment client content query
         else handle_summary client content query)
      else
        (case create_text client 500 (youtube_prompt query) of
           Inl e \<Rightarrow> Inl e
         | Inr text \<Rightarrow> Inr [(''task'', Str ''youtube_transcript''), (''result'', Str text)]))"

text \<open>The dict \<open>handlers\<close> of \<open>execute\<close> and the lookup \<open>handlers.get(task_type, self._handle_conversational)\<close>.\<close>

definition handlers :: "(string \<times> handler) list" where
  "handlers =
    [(''summarization'', handle_summary),
     (''sentiment_analysis'', handle_sentiment),
     (''code_explanation'', handle_code),
     (''action_items'', handle_actions),
     (''needs_clarification'', handle_clarification),
     (''conversational'', handle_conversational),
     (''youtube_transcript'', handle_youtube)]"

definition select_handler :: "string \<Rightarrow> handler" where
  "select_handler task_type =
     (case map_of handlers task_type of
        None \<Rightarrow> handle_conversational
      | Some h \<Rightarrow> h)"

text \<open>The dict returned by the \<open>except\<close> branch of \<open>execute\<close>.\<close>

definition error_result :: "string \<Rightarrow> exn \<Rightarrow> result" where
  "error_result task_type e =
     [(''task'', Str task_type),
      (''result'', Str (''Error executing task: '' @ str e)),
      (''error'', Bool True)]"

definition execute :: "client \<Rightarrow> string \<Rightarrow> string \<Rightarrow> string \<Rightarrow> result" where
  "execute client task_type content original_query =
     (let handler = select_handler task_type
      in case handler client content original_query of
           Inr result \<Rightarrow> result
         | Inl e \<Rightarrow> error_result task_type e)"

section \<open>Properties of the intent detector\<close>

lemma keywords_of_simps:
  "keywords_of ''youtube_transcript'' = [''youtube.com'', ''youtu.be'', ''youtube'', ''video transcript'']"
  "keywords_of ''summarization'' =
     [''summarize'', ''summary'', ''tldr'', ''brief'', ''overview'',
      ''recap'', ''gist'', ''key points'', ''main points'', ''condense'']"
  "keywords_of ''sentiment_analysis'' =
     [''sentiment'', ''feeling'', ''emotion'', ''tone'', ''mood'',
      ''opinion'', ''attitude'', ''positive'', ''negative'']"
  "keywords_of ''code_explanation'' =
     [''explain code'', ''what does this code'', ''code explanation'',
      ''how does this work'', ''analyze code'', ''review code'',
      ''debug'', ''find bugs'', ''what is this function'']"
  "keywords_of ''action_items'' =
     [''action item'', ''action items'', ''todo'', ''to-do'', ''task'',
      ''tasks'', ''next steps'', ''follow up'', ''deliverable'']"
  "keywords_of ''needs_clarification'' = []"
  "keywords_of ''conversational'' = []"
  by (simp_all add: keywords_of_def INTENT_KEYWORDS_def)

lemma scan_intents_unfold:
  "scan_intents INTENT_KEYWORDS t =
     (if contains_keywords t ''summarization'' then Some ''summarization''
      else if contains_keywords t ''sentiment_analysis'' then Some ''sentiment_analysis''
      else if contains_keywords t ''code_explanation'' then Some ''code_explanation''
      else if contains_keywords t ''action_items'' then Some ''action_items''
      else None)"
  by (simp add: INTENT_KEYWORDS_def)

lemma contains_code_Nil: "contains_code [] = False"
  by (simp add: contains_code_def CODE_PATTERNS_def lit_def)

lemma contains_Nil: "contains (k # ks) [] = False"
  by simp

text \<open>
  C3. On the empty text \<open>detect\<close> returns \<open>needs_clarification\<close> when a file is attached
  and \<open>conversational\<close> when none is.
\<close>

theorem C3_empty_text:
  "detect [] True = ''needs_clarification'' \<and> detect [] False = ''conversational''"
  by (simp add: detect_def lower_def strip_def contains_keywords_def keywords_of_simps
      contains_code_Nil scan_intents_unfold has_clear_instruction_def)

subsection \<open>Substrings and stripping\<close>

lemma starts_with_iff: "starts_with k s \<longleftrightarrow> (\<exists>b. s = k @ b)"
  by (induction k s rule: starts_with.induct) auto

lemma contains_iff: "contains k s \<longleftrightarrow> (\<exists>a b. s = a @ k @ b)"
proof (induction s)
  case Nil
  then show ?case by auto
next
  case (Cons c cs)
  show ?case
  proof
    assume "contains k (c # cs)"
    then consider "starts_with k (c # cs)" | "contains k cs" by auto
    then show "\<exists>a b. c # cs = a @ k @ b"
    proof cases
      case 1
      then obtain b where "c # cs = k @ b" by (auto simp: starts_with_iff)
      then have "c # cs = [] @ k @ b" by simp
      then show ?thesis by blast
    next
      case 2
      then obtain a b where "cs = a @ k @ b" using Cons.IH by blast
      then have "c # cs = (c # a) @ k @ b" by simp
      then show ?thesis by blast
    qed
  next
    assume "\<exists>a b. c # cs = a @ k @ b"
    then obtain a b where ab: "c # cs = a @ k @ b" by blast
    show "contains k (c # cs)"
    proof (cases a)
      case Nil
      then have "starts_with k (c # cs)" using ab by (auto simp: starts_with_iff)
      then show ?thesis by simp
    next
      case (Cons x a')
      then have "cs = a' @ k @ b" using ab by simp
      then have "contains k cs" using Cons.IH by blast
      then show ?thesis by simp
    qed
  qed
qed

lemma contains_length: "contains k s \<Longrightarrow> length k \<le> length s"
  by (auto simp: contains_iff)

lemma dropWhile_keeps:
  assumes "k \<noteq> []" "\<not> P (hd k)"
  shows "\<exists>a'. dropWhile P (a @ k @ b) = a' @ k @ b"
proof (induction a)
  case Nil
  from assms obtain x xs where "k = x # xs" by (cases k) auto
  with assms have "dropWhile P ([] @ k @ b) = [] @ k @ b" by simp
  then show ?case by blast
next
  case (Cons c a)
  then obtain a' where a': "dropWhile P (a @ k @ b) = a' @ k @ b" by blast
  show ?case
  proof (cases "P c")
    case True
    then show ?thesis using a' by auto
  next
    case False
    then have "dropWhile P ((c # a) @ k @ b) = (c # a) @ k @ b" by simp
    then show ?thesis by blast
  qed
qed

text \<open>A keyword that neither starts nor ends with whitespace survives \<open>strip\<close>.\<close>

lemma contains_strip:
  assumes "contains k s" "k \<noteq> []" "\<not> is_space (hd k)" "\<not> is_space (last k)"
  shows "contains k (strip s)"
proof -
  from assms(1) obtain a b where "s = a @ k @ b" by (auto simp: contains_iff)
  then obtain a' where 1: "dropWhile is_space s = a' @ k @ b"
    using dropWhile_keeps[of k is_space a b] assms(2,3) by blast
  have "rev k \<noteq> []" "\<not> is_space (hd (rev k))"
    using assms by (simp_all add: hd_rev)
  from dropWhile_keeps[of "rev k" is_space "rev b" "rev a'"] this
  obtain b' where "dropWhile is_space (rev b @ rev k @ rev a') = b' @ rev k @ rev a'" by blast
  then have "strip s = a' @ k @ rev b'"
    by (simp add: strip_def 1)
  then show ?thesis by (auto simp: contains_iff)
qed

text \<open>The stripped text is a piece of the text.\<close>

lemma strip_sub: "\<exists>a b. s = a @ strip s @ b"
proof -
  have 1: "\<And>xs. \<exists>a. xs = a @ dropWhile is_space xs"
    by (metis takeWhile_dropWhile_id)
  obtain a where a: "s = a @ dropWhile is_space s" using 1 by blast
  obtain b where b: "rev (dropWhile is_space s) = b @ dropWhile is_space (rev (dropWhile is_space s))"
    using 1 by blast
  have "dropWhile is_space s = strip s @ rev b"
    unfolding strip_def using b by (metis rev_append rev_rev_ident)
  with a have "s = a @ strip s @ rev b" by simp
  then show ?thesis by blast
qed

lemma contains_strip_imp: "contains k (strip s) \<Longrightarrow> contains k s"
proof -
  assume "contains k (strip s)"
  then obtain a b where "strip s = a @ k @ b" by (auto simp: contains_iff)
  moreover obtain a' b' where "s = a' @ strip s @ b'" using strip_sub by blast
  ultimately have "s = (a' @ a) @ k @ (b @ b')" by simp
  then show ?thesis unfolding contains_iff by blast
qed

lemma length_strip: "length (strip s) \<le> length s"
  by (metis strip_sub length_append le_add1 le_add2 le_trans)

lemma length_lower: "length (lower s) = length s"
  by (simp add: lower_def)

lemma contains_keywords_strip_imp:
  "contains_keywords (strip s) intent \<Longrightarrow> contains_keywords s intent"
  by (auto simp: contains_keywords_def list_ex_iff dest: contains_strip_imp)

lemma char_eq_char_of: "(c = char_of n) \<longleftrightarrow> (take_bit 8 n = of_char c)"
  using char_of_eq_iff[of n c] by auto

lemmas eval_text =
  lower_def lower_char_def strip_def is_space_def code_point_def char_of_eq_iff char_eq_char_of

lemmas eval_code =
  contains_code_def CODE_PATTERNS_def lit_def is_word_def is_space_def non_space_def
  word_or_dot_def space_or_non_space_def code_point_def

lemmas eval_detect =
  detect_def eval_text contains_keywords_def keywords_of_simps
  contains_explanation_request_def explanation_words_def scan_intents_unfold
  has_clear_instruction_def action_verbs_def

text \<open>
  C1. Whenever the lowercased text contains one of the keywords \<open>youtube.com\<close>,
  \<open>youtu.be\<close>, \<open>youtube\<close>, \<open>video transcript\<close>, \<open>detect\<close> returns
  \<open>youtube_transcript\<close>, whatever the file flag and whatever else the text matches.
  (Such a text is never empty.) The keyword test runs on the stripped text; no keyword
  starts or ends with whitespace, so stripping loses none.
\<close>

theorem C1_youtube_priority:
  assumes "contains ''youtube.com'' (lower text) \<or> contains ''youtu.be'' (lower text)
         \<or> contains ''youtube'' (lower text) \<or> contains ''video transcript'' (lower text)"
  shows "detect text has_file = ''youtube_transcript''"
proof -
  have sp: "\<not> is_space CHR ''y''" "\<not> is_space CHR ''v''" "\<not> is_space CHR ''m''"
    "\<not> is_space CHR ''e''" "\<not> is_space CHR ''t''"
    by (simp_all add: is_space_def code_point_def)
  from assms have "contains ''youtube.com'' (strip (lower text)) \<or> contains ''youtu.be'' (strip (lower text))
         \<or> contains ''youtube'' (strip (lower text)) \<or> contains ''video transcript'' (strip (lower text))"
    using sp by (auto intro!: contains_strip)
  then have "contains_keywords (strip (lower text)) ''youtube_transcript''"
    by (auto simp: contains_keywords_def keywords_of_simps)
  then show ?thesis by (simp add: detect_def)
qed

theorem C1_youtube_priority_witness:
  "contains ''youtube.com'' (lower ''Summarize this video: https://www.YouTube.com/watch?v=dQw4w9WgXcQ'')
   \<and> contains_keywords (lower ''Summarize this video: https://www.YouTube.com/watch?v=dQw4w9WgXcQ'') ''summarization''
   \<and> detect ''Summarize this video: https://www.YouTube.com/watch?v=dQw4w9WgXcQ'' True = ''youtube_transcript''"
proof -
  have h: "contains ''youtube.com'' (lower ''Summarize this video: https://www.YouTube.com/watch?v=dQw4w9WgXcQ'')"
    by (simp add: eval_text)
  have k: "contains_keywords (lower ''Summarize this video: https://www.YouTube.com/watch?v=dQw4w9WgXcQ'') ''summarization''"
    by (simp add: eval_text contains_keywords_def keywords_of_simps)
  from h k C1_youtube_priority[of "''Summarize this video: https://www.YouTube.com/watch?v=dQw4w9WgXcQ''" True]
  show ?thesis by blast
qed

text \<open>
  C2, as stated, fails: the loop of \<open>detect\<close> skips only \<open>youtube_transcript\<close>, so the
  keywords of \<open>code_explanation\<close> are consulted. The text \<open>debug\<close> is classified as
  \<open>code_explanation\<close> although the code-pattern branch does not fire on it.
\<close>

theorem C2_counterexample:
  "detect ''debug'' False = ''code_explanation''
   \<and> \<not> (contains_code ''debug'' \<and> contains_explanation_request (strip (lower ''debug'')))"
  by (simp add: eval_detect)

text \<open>
  C2, amended. The keyword scan consults the keyword sets of \<open>summarization\<close>,
  \<open>sentiment_analysis\<close>, \<open>code_explanation\<close> and \<open>action_items\<close>, in that order.
  \<open>detect\<close> returns \<open>code_explanation\<close> exactly when the stripped lowercased text
  has no YouTube keyword and either the code-pattern-and-explanation-phrase branch fires,
  or the text has a \<open>code_explanation\<close> keyword and no \<open>summarization\<close> or
  \<open>sentiment_analysis\<close> keyword.
\<close>

theorem C2_code_explanation_paths:
  "scan_intents INTENT_KEYWORDS t =
     (if contains_keywords t ''summarization'' then Some ''summarization''
      else if contains_keywords t ''sentiment_analysis'' then Some ''sentiment_analysis''
      else if contains_keywords t ''code_explanation'' then Some ''code_explanation''
      else if contains_keywords t ''action_items'' then Some ''action_items''
      else None)
   \<and> (detect text has_file = ''code_explanation'' \<longleftrightarrow>
        \<not> contains_keywords (strip (lower text)) ''youtube_transcript''
        \<and> ((contains_code text \<and> contains_explanation_request (strip (lower text)))
           \<or> (\<not> contains_keywords (strip (lower text)) ''summarization''
              \<and> \<not> contains_keywords (strip (lower text)) ''sentiment_analysis''
              \<and> contains_keywords (strip (lower text)) ''code_explanation'')))"
  by (simp add: scan_intents_unfold detect_def Let_def)

theorem C2_code_explanation_paths_witness:
  "detect ''Debug the task'' True = ''code_explanation''
   \<and> contains_keywords (strip (lower ''Debug the task'')) ''action_items''
   \<and> \<not> contains_explanation_request (strip (lower ''Debug the task''))"
proof -
  have "\<not> contains_keywords (strip (lower ''Debug the task'')) ''youtube_transcript''"
       "\<not> contains_keywords (strip (lower ''Debug the task'')) ''summarization''"
       "\<not> contains_keywords (strip (lower ''Debug the task'')) ''sentiment_analysis''"
       "contains_keywords (strip (lower ''Debug the task'')) ''code_explanation''"
       "contains_keywords (strip (lower ''Debug the task'')) ''action_items''"
       "\<not> contains_explanation_request (strip (lower ''Debug the task''))"
    by (simp_all add: eval_text contains_keywords_def keywords_of_simps
        contains_explanation_request_def explanation_words_def)
  with C2_code_explanation_paths[of "strip (lower ''Debug the task'')" "''Debug the task''" True]
  show ?thesis by blast
qed

text \<open>
  C4. \<open>get_confidence\<close> classifies the text again; it is 0 for \<open>needs_clarification\<close>;
  otherwise, with \<open>n\<close> the number of keywords of the detected intent that occur in the
  lowercased text, it is 0.95 for \<open>n \<ge> 2\<close>, 0.75 for \<open>n = 1\<close> and 0.5 for
  \<open>n = 0\<close>. It always lies between 0 and 1.
\<close>

theorem C4_confidence:
  "get_confidence text has_file =
     (if detect text has_file = ''needs_clarification'' then 0
      else if length (filter (\<lambda>k. contains k (lower text)) (keywords_of (detect text has_file))) \<ge> 2
        then 0.95
      else if length (filter (\<lambda>k. contains k (lower text)) (keywords_of (detect text has_file))) = 1
        then 0.75
      else 0.5)
   \<and> 0 \<le> get_confidence text has_file \<and> get_confidence text has_file \<le> 1"
proof -
  have "sum_list (map (\<lambda>k. 1) xs) = length xs" for xs :: "string list"
    by (induction xs) simp_all
  then have "keyword_matches i t = length (filter (\<lambda>k. contains k t) (keywords_of i))" for i t
    by (simp add: keyword_matches_def)
  then show ?thesis by (simp add: get_confidence_def Let_def)
qed

theorem C4_confidence_witness:
  "get_confidence ''Please summarize and give me a summary of this'' False = 0.95
   \<and> get_confidence ''Is the mood good?'' False = 0.75
   \<and> get_confidence (''def foo():'' @ [CHR 0x0A] @ ''  pass'' @ [CHR 0x0A] @ ''Explain what this does'') False = 0.5
   \<and> get_confidence [] True = 0"
proof -
  have e1: "(if detect ''Please summarize and give me a summary of this'' False = ''needs_clarification'' then 0
       else if length (filter (\<lambda>k. contains k (lower ''Please summarize and give me a summary of this'')) (keywords_of (detect ''Please summarize and give me a summary of this'' False))) \<ge> 2
         then 0.95
       else if length (filter (\<lambda>k. contains k (lower ''Please summarize and give me a summary of this'')) (keywords_of (detect ''Please summarize and give me a summary of this'' False))) = 1
         then 0.75
       else 0.5) = (0.95::real)"
    by code_simp
  have r1: "get_confidence ''Please summarize and give me a summary of this'' False = 0.95"
    using C4_confidence[of "''Please summarize and give me a summary of this''" False] unfolding e1 by (rule conjunct1)
  have e2: "(if detect ''Is the mood good?'' False = ''needs_clarification'' then 0
       else if length (filter (\<lambda>k. contains k (lower ''Is the mood good?'')) (keywords_of (detect ''Is the mood good?'' False))) \<ge> 2
         then 0.95
       else if length (filter (\<lambda>k. contains k (lower ''Is the mood good?'')) (keywords_of (detect ''Is the mood good?'' False))) = 1
         then 0.75
       else 0.5) = (0.75::real)"
    by code_simp
  have r2: "get_confidence ''Is the mood good?'' False = 0.75"
    using C4_confidence[of "''Is the mood good?''" False] unfolding e2 by (rule conjunct1)
  have e3: "(if detect (''def foo():'' @ [CHR 0x0A] @ ''  pass'' @ [CHR 0x0A] @ ''Explain what this does'') False = ''needs_clarification'' then 0
       else if length (filter (\<lambda>k. contains k (lower (''def foo():'' @ [CHR 0x0A] @ ''  pass'' @ [CHR 0x0A] @ ''Explain what this does''))) (keywords_of (detect (''def foo():'' @ [CHR 0x0A] @ ''  pass'' @ [CHR 0x0A] @ ''Explain what this does'') False))) \<ge> 2
         then 0.95
       else if length (filter (\<lambda>k. contains k (lower (''def foo():'' @ [CHR 0x0A] @ ''  pass'' @ [CHR 0x0A] @ ''Explain what this does''))) (keywords_of (detect (''def foo():'' @ [CHR 0x0A] @ ''  pass'' @ [CHR 0x0A] @ ''Explain what this does'') False))) = 1
         then 0.75
       else 0.5) = (0.5::real)"
    by code_simp
  have r3: "get_confidence (''def foo():'' @ [CHR 0x0A] @ ''  pass'' @ [CHR 0x0A] @ ''Explain what this does'') False = 0.5"
    using C4_confidence[of "(''def foo():'' @ [CHR 0x0A] @ ''  pass'' @ [CHR 0x0A] @ ''Explain what this does'')" False] unfolding e3 by (rule conjunct1)
  have e4: "(if detect [] True = ''needs_clarification'' then 0
       else if length (filter (\<lambda>k. contains k (lower [])) (keywords_of (detect [] True))) \<ge> 2
         then 0.95
       else if length (filter (\<lambda>k. contains k (lower [])) (keywords_of (detect [] True))) = 1
         then 0.75
       else 0.5) = (0::real)"
    by code_simp
  have r4: "get_confidence [] True = 0"
    using C4_confidence[of "[]" True] unfolding e4 by (rule conjunct1)
  from r1 r2 r3 r4 show ?thesis by (intro conjI)
qed

text \<open>
  C9. A text shorter than 5 characters whose lowercased form contains no keyword of any
  intent is classified, with a file attached, as \<open>needs_clarification\<close>: the length
  check of \<open>has_clear_instruction\<close> answers before the action verbs are looked at.
  This holds even for the texts \<open>find\<close>, \<open>list\<close>, \<open>show\<close>, \<open>tell\<close>, \<open>give\<close>,
  which are action verbs themselves.
\<close>

theorem C9_short_text_with_file:
  assumes "length text < 5"
      and "\<not> list_ex (contains_keywords (lower text)) (map fst INTENT_KEYWORDS)"
  shows "detect text True = ''needs_clarification''
         \<and> has_clear_instruction (strip (lower text)) = False"
proof -
  let ?t = "strip (lower text)"
  have len: "length ?t < 5"
    using assms(1) length_strip[of "lower text"] by (simp add: length_lower)
  have no: "\<not> contains_keywords ?t i" if "i \<in> set (map fst INTENT_KEYWORDS)" for i
    using assms(2) that contains_keywords_strip_imp[of "lower text" i]
    by (auto simp: list_ex_iff)
  have kw: "\<not> contains_keywords ?t ''youtube_transcript''"
    "\<not> contains_keywords ?t ''summarization''"
    "\<not> contains_keywords ?t ''sentiment_analysis''"
    "\<not> contains_keywords ?t ''code_explanation''"
    "\<not> contains_keywords ?t ''action_items''"
    by (rule no, simp add: INTENT_KEYWORDS_def)+
  have "\<not> contains w ?t" if "w \<in> set explanation_words" for w
  proof
    assume "contains w ?t"
    then have "length w \<le> length ?t" by (rule contains_length)
    moreover have "6 \<le> length w" using that by (auto simp: explanation_words_def)
    ultimately show False using len by simp
  qed
  then have ex: "\<not> contains_explanation_request ?t"
    by (auto simp: contains_explanation_request_def list_ex_iff)
  have clear: "has_clear_instruction ?t = False"
    using len by (simp add: has_clear_instruction_def)
  show ?thesis
    using kw ex clear by (simp add: detect_def scan_intents_unfold)
qed

theorem C9_short_text_with_file_witness:
  "list_all (\<lambda>verb. length verb < 5 \<and> list_ex (\<lambda>v. contains v verb) action_verbs
       \<and> detect verb True = ''needs_clarification'')
     [''find'', ''list'', ''show'', ''tell'', ''give'']"
proof -
  have h: "\<not> list_ex (contains_keywords (lower ''find'')) (map fst INTENT_KEYWORDS)"
    "\<not> list_ex (contains_keywords (lower ''list'')) (map fst INTENT_KEYWORDS)"
    "\<not> list_ex (contains_keywords (lower ''show'')) (map fst INTENT_KEYWORDS)"
    "\<not> list_ex (contains_keywords (lower ''tell'')) (map fst INTENT_KEYWORDS)"
    "\<not> list_ex (contains_keywords (lower ''give'')) (map fst INTENT_KEYWORDS)"
    by (simp_all add: INTENT_KEYWORDS_def contains_keywords_def keywords_of_simps eval_text)
  have v: "list_all (\<lambda>verb. list_ex (\<lambda>v. contains v verb) action_verbs)
     [''find'', ''list'', ''show'', ''tell'', ''give'']"
    by (simp add: action_verbs_def)
  show ?thesis
    using h v C9_short_text_with_file[of "''find''"] C9_short_text_with_file[of "''list''"]
      C9_short_text_with_file[of "''show''"] C9_short_text_with_file[of "''tell''"]
      C9_short_text_with_file[of "''give''"]
    by simp
qed

section \<open>Properties of the task executor\<close>

lemma select_handler_simps:
  "select_handler ''summarization'' = handle_summary"
  "select_handler ''sentiment_analysis'' = handle_sentiment"
  "select_handler ''code_explanation'' = handle_code"
  "select_handler ''action_items'' = handle_actions"
  "select_handler ''needs_clarification'' = handle_clarification"
  "select_handler ''conversational'' = handle_conversational"
  "select_handler ''youtube_transcript'' = handle_youtube"
  by (simp_all add: select_handler_def handlers_def)

text \<open>
  C5. Whatever the task type, the content and the query: when the selected handler
  raises an exception, \<open>execute\<close> returns the error dict, whose \<open>error\<close> is \<open>True\<close>,
  whose \<open>task\<close> is the requested task type and whose \<open>result\<close> is the message
  \<open>Error executing task: \<close> followed by the text of the exception. \<open>execute\<close> is a
  total function of the model: the exception does not escape it.
\<close>

theorem C5_exception_caught:
  assumes "select_handler task_type client content query = Inl e"
  shows "execute client task_type content query =
           [(''task'', Str task_type),
            (''result'', Str (''Error executing task: '' @ str e)),
            (''error'', Bool True)]
         \<and> map_of (execute client task_type content query) ''error'' = Some (Bool True)
         \<and> map_of (execute client task_type content query) ''task'' = Some (Str task_type)"
  using assms by (simp add: execute_def error_result_def)

theorem C5_exception_caught_witness:
  "select_handler ''summarization'' (\<lambda>m n p. Inl (Exception ''Connection error.'')) ''abc'' ''q''
     = Inl (Exception ''Connection error.'')
   \<and> execute (\<lambda>m n p. Inl (Exception ''Connection error.'')) ''summarization'' ''abc'' ''q''
     = [(''task'', Str ''summarization''),
        (''result'', Str ''Error executing task: Connection error.''),
        (''error'', Bool True)]
   \<and> select_handler ''youtube_transcript'' (\<lambda>m n p. Inr []) ''[YouTube Transcript]: abc'' ''q''
     = Inl (Exception ''list index out of range'')
   \<and> execute (\<lambda>m n p. Inr []) ''youtube_transcript'' ''[YouTube Transcript]: abc'' ''q''
     = [(''task'', Str ''youtube_transcript''),
        (''result'', Str ''Error executing task: list index out of range''),
        (''error'', Bool True)]"
proof -
  have h1: "select_handler ''summarization'' (\<lambda>m n p. Inl (Exception ''Connection error.'')) ''abc'' ''q''
     = Inl (Exception ''Connection error.'')"
    by (simp add: select_handler_simps handle_summary_def create_text_def)
  have h2: "select_handler ''youtube_transcript'' (\<lambda>m n p. Inr []) ''[YouTube Transcript]: abc'' ''q''
     = Inl (Exception ''list index out of range'')"
    by (simp add: select_handler_simps handle_youtube_def handle_summary_def create_text_def
        first_text_def lower_def)
  from C5_exception_caught[OF h1] C5_exception_caught[OF h2] h1 h2
  show ?thesis by simp
qed

text \<open>
  C6. A task type that is none of the seven recognised names is routed to
  \<open>handle_conversational\<close>: the client is asked with the conversational prompt and the
  1000-token ceiling, and when that call succeeds the result is the one a
  \<open>conversational\<close> request gets, with no \<open>error\<close> key. (When the call fails, the error
  dict of \<open>execute\<close> carries the unknown task type as its label.)
\<close>

theorem C6_unknown_task_type:
  assumes "task_type \<notin> set [''summarization'', ''sentiment_analysis'', ''code_explanation'',
             ''action_items'', ''needs_clarification'', ''conversational'', ''youtube_transcript'']"
  shows "select_handler task_type = handle_conversational
       \<and> execute client task_type content query =
           (case create_text client 1000 (conversational_prompt content query) of
              Inl e \<Rightarrow> error_result task_type e
            | Inr text \<Rightarrow> [(''task'', Str ''conversational''), (''result'', Str text)])
       \<and> (\<forall>text. create_text client 1000 (conversational_prompt content query) = Inr text \<longrightarrow>
            execute client task_type content query = execute client ''conversational'' content query
            \<and> map_of (execute client task_type content query) ''error'' = None)"
proof -
  from assms have "map_of handlers task_type = None"
    by (simp add: handlers_def)
  then have sel: "select_handler task_type = handle_conversational"
    by (simp add: select_handler_def)
  show ?thesis
    by (auto simp: sel execute_def select_handler_simps handle_conversational_def split: sum.splits)
qed

theorem C6_unknown_task_type_witness:
  "''translate'' \<notin> set [''summarization'', ''sentiment_analysis'', ''code_explanation'',
             ''action_items'', ''needs_clarification'', ''conversational'', ''youtube_transcript'']
   \<and> execute (\<lambda>m n p. Inr [''Hi!'']) ''translate'' ''abc'' ''abc''
       = [(''task'', Str ''conversational''), (''result'', Str ''Hi!'')]
   \<and> execute (\<lambda>m n p. Inr [''Hi!'']) ''translate'' ''abc'' ''abc''
       = execute (\<lambda>m n p. Inr [''Hi!'']) ''conversational'' ''abc'' ''abc''"
proof -
  have h: "''translate'' \<notin> set [''summarization'', ''sentiment_analysis'', ''code_explanation'',
             ''action_items'', ''needs_clarification'', ''conversational'', ''youtube_transcript'']"
    by simp
  have c: "create_text (\<lambda>m n p. Inr [''Hi!'']) 1000 (conversational_prompt ''abc'' ''abc'') = Inr ''Hi!''"
    by (simp add: create_text_def first_text_def)
  from C6_unknown_task_type[OF h, of "\<lambda>m n p. Inr [''Hi!'']" "''abc''" "''abc''"] c h
  show ?thesis by (simp add: execute_def select_handler_simps handle_conversational_def)
qed

text \<open>
  C7, as stated, fails: with the transcript marker present, a query that contains
  \<open>tone\<close> and also \<open>summary\<close> is handled by \<open>handle_summary\<close>, not by
  \<open>handle_sentiment\<close>, because the summary words are tested first.
\<close>

theorem C7_counterexample:
  "contains ''[YouTube Transcript]:'' ''[YouTube Transcript]: hello''
   \<and> contains ''tone'' ''summary of the tone''
   \<and> handle_youtube (\<lambda>m n p. Inr [''ok'']) ''[YouTube Transcript]: hello'' ''summary of the tone''
       = handle_summary (\<lambda>m n p. Inr [''ok'']) ''[YouTube Transcript]: hello'' ''summary of the tone''
   \<and> handle_youtube (\<lambda>m n p. Inr [''ok'']) ''[YouTube Transcript]: hello'' ''summary of the tone''
       \<noteq> handle_sentiment (\<lambda>m n p. Inr [''ok'']) ''[YouTube Transcript]: hello'' ''summary of the tone''
   \<and> execute (\<lambda>m n p. Inr [''ok'']) ''youtube_transcript'' ''[YouTube Transcript]: hello'' ''summary of the tone''
       = [(''task'', Str ''summarization''), (''result'', Str ''ok'')]"
  by (simp add: execute_def select_handler_simps handle_youtube_def handle_summary_def
      handle_sentiment_def create_text_def first_text_def eval_text)

text \<open>
  C7, amended. \<open>youtube_transcript\<close> is dispatched to \<open>handle_youtube\<close>. When the
  content contains the marker \<open>[YouTube Transcript]:\<close>, it hands over to
  \<open>handle_sentiment\<close> if the lowercased query contains \<open>sentiment\<close> or \<open>tone\<close> and none
  of \<open>summarize\<close>, \<open>summary\<close>, \<open>tldr\<close>, and to \<open>handle_summary\<close> otherwise. When the
  marker is absent, it asks the client with the limitation prompt and the 500-token
  ceiling, and labels the result \<open>youtube_transcript\<close>.
\<close>

theorem C7_youtube_dispatch:
  "select_handler ''youtube_transcript'' = handle_youtube
   \<and> handle_youtube client content query =
     (if contains ''[YouTube Transcript]:'' content then
        (if (contains ''sentiment'' (lower query) \<or> contains ''tone'' (lower query))
            \<and> \<not> (contains ''summarize'' (lower query) \<or> contains ''summary'' (lower query)
                   \<or> contains ''tldr'' (lower query))
         then handle_sentiment client content query
         else handle_summary client content query)
      else
        (case create_text client 500 (youtube_prompt query) of
           Inl e \<Rightarrow> Inl e
         | Inr text \<Rightarrow> Inr [(''task'', Str ''youtube_transcript''), (''result'', Str text)]))"
  by (simp add: select_handler_simps handle_youtube_def)

theorem C7_youtube_dispatch_witness:
  "handle_youtube (\<lambda>m n p. Inr [''ok'']) ''[YouTube Transcript]: hello'' ''What is the TONE?''
     = Inr [(''task'', Str ''sentiment_analysis''), (''result'', Str ''ok'')]
   \<and> handle_youtube (\<lambda>m n p. Inr [''ok'']) ''[YouTube Transcript]: hello'' ''what is it about''
     = Inr [(''task'', Str ''summarization''), (''result'', Str ''ok'')]
   \<and> handle_youtube (\<lambda>m n p. if n = 500 then Inr [''ok''] else Inr [''other'']) ''hello'' ''what is the tone''
     = Inr [(''task'', Str ''youtube_transcript''), (''result'', Str ''ok'')]"
proof -
  have 1: "handle_youtube (\<lambda>m n p. Inr [''ok'']) ''[YouTube Transcript]: hello'' ''What is the TONE?''
     = Inr [(''task'', Str ''sentiment_analysis''), (''result'', Str ''ok'')]"
    using C7_youtube_dispatch[of "\<lambda>m n p. Inr [''ok'']" "''[YouTube Transcript]: hello''" "''What is the TONE?''"]
    by (simp add: handle_sentiment_def create_text_def first_text_def eval_text)
  have 2: "handle_youtube (\<lambda>m n p. Inr [''ok'']) ''[YouTube Transcript]: hello'' ''what is it about''
     = Inr [(''task'', Str ''summarization''), (''result'', Str ''ok'')]"
    using C7_youtube_dispatch[of "\<lambda>m n p. Inr [''ok'']" "''[YouTube Transcript]: hello''" "''what is it about''"]
    by (simp add: handle_summary_def create_text_def first_text_def eval_text)
  have 3: "handle_youtube (\<lambda>m n p. if n = 500 then Inr [''ok''] else Inr [''other'']) ''hello'' ''what is the tone''
     = Inr [(''task'', Str ''youtube_transcript''), (''result'', Str ''ok'')]"
    using C7_youtube_dispatch[of "\<lambda>m n p. if n = 500 then Inr [''ok''] else Inr [''other'']" "''hello''" "''what is the tone''"]
    by (simp add: create_text_def first_text_def)
  from 1 2 3 show ?thesis by (intro conjI)
qed

lemma clarification_prompt_take:
  "clarification_prompt (take 200 content) query = clarification_prompt content query"
  by (simp add: clarification_prompt_def)

lemma clarification_prompt_split:
  "clarification_prompt content query =
     clarification_head @ ''User's query: '' @ query @ ''\<newline>''
       @ ''Content provided: '' @ take 200 content @ ''...\<newline>''"
  by (simp add: clarification_prompt_def clarification_head_def)

text \<open>
  C8. \<open>needs_clarification\<close> is dispatched to \<open>handle_clarification\<close>. Its prompt is the
  fixed head followed by the query and the first 200 characters of the content, so it
  depends on the content through those characters only; the client is asked with the
  300-token ceiling; the result is labelled \<open>clarification\<close>, which is not the intent
  name \<open>needs_clarification\<close>.
\<close>

theorem C8_clarification:
  "select_handler ''needs_clarification'' = handle_clarification
   \<and> execute client ''needs_clarification'' content query =
       (case create_text client 300 (clarification_prompt (take 200 content) query) of
          Inl e \<Rightarrow> error_result ''needs_clarification'' e
        | Inr text \<Rightarrow> [(''task'', Str ''clarification''), (''result'', Str text)])
   \<and> clarification_prompt content query = clarification_prompt (take 200 content) query
   \<and> clarification_prompt content query =
       clarification_head @ ''User's query: '' @ query @ ''\<newline>''
         @ ''Content provided: '' @ take 200 content @ ''...\<newline>''
   \<and> ''clarification'' \<noteq> ''needs_clarification''"
proof -
  have "execute client ''needs_clarification'' content query =
       (case create_text client 300 (clarification_prompt (take 200 content) query) of
          Inl e \<Rightarrow> error_result ''needs_clarification'' e
        | Inr text \<Rightarrow> [(''task'', Str ''clarification''), (''result'', Str text)])"
    by (simp add: select_handler_simps execute_def handle_clarification_def
        clarification_prompt_take split: sum.splits)
  then show ?thesis
    using clarification_prompt_split[of content query]
    by (simp add: select_handler_simps clarification_prompt_take)
qed

theorem C8_clarification_witness:
  "execute (\<lambda>m n p. if n = 300 then Inr [''What would you like me to do?''] else Inr [''other''])
      ''needs_clarification'' (replicate 200 CHR ''a'' @ ''tail'') ''hm''
     = [(''task'', Str ''clarification''), (''result'', Str ''What would you like me to do?'')]
   \<and> clarification_prompt (replicate 200 CHR ''a'' @ ''tail'') ''hm''
     = clarification_prompt (replicate 200 CHR ''a'') ''hm''"
  using C8_clarification[of "\<lambda>m n p. if n = 300 then Inr [''What would you like me to do?''] else Inr [''other'']"
      "replicate 200 CHR ''a'' @ ''tail''" "''hm''"]
  by (simp add: create_text_def first_text_def)

text \<open>
  C10. When the content contains the marker \<open>[YouTube Transcript]:\<close> and
  \<open>handle_youtube\<close> returns a result, \<open>execute\<close> returns that result, its \<open>task\<close> is
  \<open>summarization\<close> or \<open>sentiment_analysis\<close> and never \<open>youtube_transcript\<close>, and it has
  no \<open>error\<close> key.
\<close>

theorem C10_youtube_success_label:
  assumes "contains ''[YouTube Transcript]:'' content"
      and "handle_youtube client content query = Inr result"
  shows "execute client ''youtube_transcript'' content query = result
       \<and> (map_of result ''task'' = Some (Str ''summarization'')
          \<or> map_of result ''task'' = Some (Str ''sentiment_analysis''))
       \<and> map_of result ''task'' \<noteq> Some (Str ''youtube_transcript'')
       \<and> map_of result ''error'' = None"
proof -
  have ex: "execute client ''youtube_transcript'' content query = result"
    using assms(2) by (simp add: execute_def select_handler_simps)
  from assms have "handle_summary client content query = Inr result
      \<or> handle_sentiment client content query = Inr result"
    by (auto simp: handle_youtube_def split: if_splits)
  then have "map_of result ''task'' = Some (Str ''summarization'') \<and> map_of result ''error'' = None
          \<or> map_of result ''task'' = Some (Str ''sentiment_analysis'') \<and> map_of result ''error'' = None"
    by (auto simp: handle_summary_def handle_sentiment_def split: sum.splits)
  with ex show ?thesis by auto
qed

theorem C10_youtube_success_label_witness:
  "contains ''[YouTube Transcript]:'' ''[YouTube Transcript]: hello''
   \<and> execute (\<lambda>m n p. Inr [''ok'']) ''youtube_transcript'' ''[YouTube Transcript]: hello'' ''what is it about''
       = [(''task'', Str ''summarization''), (''result'', Str ''ok'')]
   \<and> execute (\<lambda>m n p. Inr [''ok'']) ''youtube_transcript'' ''[YouTube Transcript]: hello'' ''What is the TONE?''
       = [(''task'', Str ''sentiment_analysis''), (''result'', Str ''ok'')]"
proof -
  have m: "contains ''[YouTube Transcript]:'' ''[YouTube Transcript]: hello''"
    by simp
  have 1: "handle_youtube (\<lambda>m n p. Inr [''ok'']) ''[YouTube Transcript]: hello'' ''what is it about''
     = Inr [(''task'', Str ''summarization''), (''result'', Str ''ok'')]"
    by (simp add: handle_youtube_def handle_summary_def create_text_def first_text_def eval_text)
  have 2: "handle_youtube (\<lambda>m n p. Inr [''ok'']) ''[YouTube Transcript]: hello'' ''What is the TONE?''
     = Inr [(''task'', Str ''sentiment_analysis''), (''result'', Str ''ok'')]"
    by (simp add: handle_youtube_def handle_sentiment_def create_text_def first_text_def eval_text)
  from C10_youtube_success_label[OF m 1] C10_youtube_success_label[OF m 2] m
  show ?thesis by simp
qed

end
